theory Spec2Isabelle
  imports Main "HOL-Library.Word"
begin

unbundle bit_operations_syntax

section \<open>Objects, references and exceptions\<close>

text \<open>
  The notebooks are about object identity and mutation, so mutable objects live in an
  explicit store. A reference is the index of the object in the store; allocation
  appends, so a new object never aliases an older one. Immutable values (ints, strings,
  tuples) are plain HOL values.
\<close>

type_synonym ref = nat
type_synonym 'a heap = "'a list"

definition alloc :: "'a \<Rightarrow> 'a heap \<Rightarrow> ref \<times> 'a heap" where
  "alloc v h = (length h, h @ [v])"

definition deref :: "'a heap \<Rightarrow> ref \<Rightarrow> 'a option" where
  "deref h r = (if r < length h then Some (h ! r) else None)"

definition assign :: "'a heap \<Rightarrow> ref \<Rightarrow> 'a \<Rightarrow> 'a heap" where
  "assign h r v = h[r := v]"

text \<open>The exceptions the notebooks raise, each with the argument it is raised with.\<close>

datatype exn =
    TypeError string
  | ValueError string
  | KeyError ref
  | AttributeError string
  | FrozenInstanceError string

text \<open>
  Where a message puts a name between apostrophes (the interpreter's formats
  \<^verbatim>\<open>'%s'\<close>, \<^verbatim>\<open>'%U'\<close> and \<^verbatim>\<open>'%S'\<close>), the name is copied as it is.
\<close>

definition quoted :: "string \<Rightarrow> string" where
  "quoted s = [CHR 0x27] @ s @ [CHR 0x27]"

text \<open>
  \<^verbatim>\<open>repr\<close> of a string, which \<^verbatim>\<open>{name!r}\<close> in an f-string calls. The quote is an
  apostrophe, or a double quote when the string has an apostrophe and no double quote in
  it. The quote and the backslash are escaped with a backslash; tab, line feed and
  carriage return become \<^verbatim>\<open>\t\<close>, \<^verbatim>\<open>\n\<close> and \<^verbatim>\<open>\r\<close>; any other character below
  the space, and the delete character, becomes \<^verbatim>\<open>\x\<close> and two lowercase hexadecimal
  digits. The bytes of a character beyond ASCII are copied: whether \<^verbatim>\<open>repr\<close> escapes such
  a character depends on the Unicode tables, so this is \<^verbatim>\<open>repr\<close> on ASCII strings, and
  on others only where the characters are printable.
\<close>

definition hexdigit :: "nat \<Rightarrow> char" where
  "hexdigit k = char_of (if k < 10 then 48 + k else 87 + k)"

definition repr_char :: "char \<Rightarrow> char \<Rightarrow> string" where
  "repr_char quote c =
     (if c = quote \<or> c = CHR 0x5C then [CHR 0x5C, c]
      else if c = CHR 0x09 then [CHR 0x5C, CHR ''t'']
      else if c = CHR 0x0A then [CHR 0x5C, CHR ''n'']
      else if c = CHR 0x0D then [CHR 0x5C, CHR ''r'']
      else if (of_char c :: nat) < 32 \<or> c = CHR 0x7F then
        [CHR 0x5C, CHR ''x'', hexdigit (of_char c div 16), hexdigit (of_char c mod 16)]
      else [c])"

definition str_repr :: "string \<Rightarrow> string" where
  "str_repr s =
     (let quote = (if CHR 0x27 \<in> set s \<and> CHR 0x22 \<notin> set s then CHR 0x22 else CHR 0x27)
      in [quote] @ concat (map (repr_char quote) s) @ [quote])"

section \<open>CallByAssignment.ipynb\<close>

text \<open>
  \<^verbatim>\<open>
  def func1(x: int, y: list[int] = []) -> list[int]:
      y += [x]
      return y

  def func2(x: int, y: tuple[int] = ()) -> tuple[int]:
      y += (x,)
      return y
  \<close>
  Executing the two \<^verbatim>\<open>def\<close> statements evaluates each default expression once:
  \<^verbatim>\<open>[]\<close> allocates one list object, whose reference the function keeps; \<^verbatim>\<open>()\<close> is
  the empty tuple, an immutable value.
\<close>

record cba_state =
  heap :: "int list heap"
  func1_default :: ref
  func2_default :: "int list"

definition define_funcs :: "int list heap \<Rightarrow> cba_state" where
  "define_funcs h =
     (let (r, h') = alloc [] h
      in \<lparr>heap = h', func1_default = r, func2_default = []\<rparr>)"

text \<open>
  \<^verbatim>\<open>y += [x]\<close> on a list is \<^verbatim>\<open>list.__iadd__\<close>: it extends the object \<^verbatim>\<open>y\<close> refers to
  and leaves \<^verbatim>\<open>y\<close> bound to it. The result is the reference that \<^verbatim>\<open>y\<close> holds.
  \<open>None\<close> stands for a reference to no object, which no Python program can hold.
\<close>

definition func1 :: "int \<Rightarrow> ref option \<Rightarrow> cba_state \<Rightarrow> (ref \<times> cba_state) option" where
  "func1 x y_arg s =
     (let y = (case y_arg of None \<Rightarrow> func1_default s | Some r \<Rightarrow> r)
      in case deref (heap s) y of
           None \<Rightarrow> None
         | Some ys \<Rightarrow> Some (y, s\<lparr>heap := assign (heap s) y (ys @ [x])\<rparr>))"

text \<open>
  \<^verbatim>\<open>y += (x,)\<close> on a tuple has no in-place form: it builds the tuple \<^verbatim>\<open>y + (x,)\<close> and
  rebinds the local name \<^verbatim>\<open>y\<close>. Nothing outside the call changes.
\<close>

definition func2 :: "int \<Rightarrow> int list option \<Rightarrow> cba_state \<Rightarrow> int list \<times> cba_state" where
  "func2 x y_arg s =
     (let y = (case y_arg of None \<Rightarrow> func2_default s | Some t \<Rightarrow> t);
          y' = y @ [x]
      in (y', s))"

text \<open>What \<^verbatim>\<open>print\<close> shows for a returned list: the contents of the object now.\<close>

definition shown :: "cba_state \<Rightarrow> ref \<Rightarrow> int list option" where
  "shown s r = deref (heap s) r"

text \<open>Calling \<^verbatim>\<open>func1\<close> with each element of a list in turn, always without \<^verbatim>\<open>y\<close>.\<close>

fun func1_calls :: "int list \<Rightarrow> cba_state \<Rightarrow> (ref \<times> cba_state) option" where
  "func1_calls [] s = Some (func1_default s, s)"
| "func1_calls (x # xs) s =
     (case func1 x None s of None \<Rightarrow> None | Some (r, s') \<Rightarrow> func1_calls xs s')"

section \<open>The notebook on dictionary keys\<close>

subsection \<open>The interpreter's hashes\<close>

text \<open>
  \<^verbatim>\<open>hash\<close> of an int and of a tuple, as CPython 3.10 (the notebook's kernel) computes
  them on a 64-bit build: \<^verbatim>\<open>Py_hash_t\<close> and \<^verbatim>\<open>Py_uhash_t\<close> are 64-bit words. An int
  hashes to its value reduced modulo \<open>2 ^ 61 - 1\<close>, with its sign, and never to \<open>-1\<close>.
  A tuple's hash combines the hashes of its items in order and then its length.
\<close>

type_synonym Py_hash_t = "64 word"

definition PyHASH_MODULUS :: int where
  "PyHASH_MODULUS = 2 ^ 61 - 1"

definition long_hash :: "int \<Rightarrow> Py_hash_t" where
  "long_hash n =
     (let x = (if n < 0 then - (\<bar>n\<bar> mod PyHASH_MODULUS) else n mod PyHASH_MODULUS)
      in word_of_int (if x = - 1 then - 2 else x))"

definition XXPRIME_1 :: Py_hash_t where
  "XXPRIME_1 = 11400714785074694791"

definition XXPRIME_2 :: Py_hash_t where
  "XXPRIME_2 = 14029467366897019727"

definition XXPRIME_5 :: Py_hash_t where
  "XXPRIME_5 = 2870177450012600261"

definition XXROTATE :: "Py_hash_t \<Rightarrow> Py_hash_t" where
  "XXROTATE x = (push_bit 31 x) OR (drop_bit 33 x)"

fun tuplehash_lanes :: "Py_hash_t \<Rightarrow> Py_hash_t list \<Rightarrow> Py_hash_t" where
  "tuplehash_lanes acc [] = acc"
| "tuplehash_lanes acc (lane # lanes) =
     tuplehash_lanes (XXROTATE (acc + lane * XXPRIME_2) * XXPRIME_1) lanes"

definition tuplehash :: "int list \<Rightarrow> Py_hash_t" where
  "tuplehash v =
     (let acc = tuplehash_lanes XXPRIME_5 (map long_hash v);
          acc = acc + (word_of_nat (length v) XOR (XXPRIME_5 XOR 3527539))
      in if acc = - 1 then 1546275796 else acc)"

subsection \<open>Lists and hashable lists\<close>

text \<open>
  \<^verbatim>\<open>
  class HashableList(list):
      def __hash__(self):
          return hash(tuple(self))
  \<close>
  A list object is a built-in \<^verbatim>\<open>list\<close> or a \<^verbatim>\<open>HashableList\<close>; both hold their items and
  both are mutable. \<^verbatim>\<open>list\<close> sets \<^verbatim>\<open>__hash__\<close> to \<^verbatim>\<open>None\<close>, so hashing one raises
  \<^verbatim>\<open>TypeError\<close>. The subclass inherits \<^verbatim>\<open>append\<close> and \<^verbatim>\<open>__eq__\<close>, which compares items.
\<close>

datatype list_obj = PyList "int list" | HashableList "int list"

fun items :: "list_obj \<Rightarrow> int list" where
  "items (PyList xs) = xs"
| "items (HashableList xs) = xs"

definition HashableList_hash :: "int list \<Rightarrow> Py_hash_t" where
  "HashableList_hash self = tuplehash self"

fun PyObject_Hash :: "list_obj \<Rightarrow> exn + Py_hash_t" where
  "PyObject_Hash (PyList xs) = Inl (TypeError (''unhashable type: '' @ quoted ''list''))"
| "PyObject_Hash (HashableList xs) = Inr (HashableList_hash xs)"

definition list_eq :: "list_obj \<Rightarrow> list_obj \<Rightarrow> bool" where
  "list_eq a b = (items a = items b)"

fun append_item :: "list_obj \<Rightarrow> int \<Rightarrow> list_obj" where
  "append_item (PyList xs) v = PyList (xs @ [v])"
| "append_item (HashableList xs) v = HashableList (xs @ [v])"

definition list_append :: "list_obj heap \<Rightarrow> ref \<Rightarrow> int \<Rightarrow> list_obj heap option" where
  "list_append h r v =
     (case deref h r of None \<Rightarrow> None | Some ob \<Rightarrow> Some (assign h r (append_item ob v)))"

subsection \<open>The dictionary\<close>

text \<open>
  A CPython dictionary is an open-addressing table: \<open>dk_indices\<close> has a power-of-two
  number of slots, each empty or holding the position of an entry; an entry keeps the hash
  the key had when it was inserted, the reference to the key, and the value. The
  notebook never deletes from a dictionary, so there are no dummy slots.
\<close>

record PyDictObject =
  dk_indices :: "nat option list"
  dk_entries :: "(Py_hash_t \<times> ref \<times> int) list"

definition PyDict_MINSIZE :: nat where
  "PyDict_MINSIZE = 8"

definition PERTURB_SHIFT :: nat where
  "PERTURB_SHIFT = 5"

definition DK_MASK :: "PyDictObject \<Rightarrow> Py_hash_t" where
  "DK_MASK d = word_of_nat (length (dk_indices d) - 1)"

text \<open>
  The probe loop of a lookup. At slot \<open>i\<close>: an empty slot ends the search (the key is
  absent); an entry matches if its key is the very same object, or if its stored hash
  equals \<open>hash\<close> and the keys compare equal; otherwise the next slot is
  \<open>(i * 5 + perturb + 1) AND mask\<close> with \<open>perturb\<close> shifted right. The result is
  \<open>Some None\<close> for absent and \<open>Some (Some ix)\<close> for the entry found; the loop has no
  bound in the code, so no result at all is \<open>None\<close>.
\<close>

partial_function (option) lookdict ::
  "list_obj heap \<Rightarrow> PyDictObject \<Rightarrow> ref \<Rightarrow> Py_hash_t \<Rightarrow> Py_hash_t \<Rightarrow> Py_hash_t \<Rightarrow> nat option option"
where
  "lookdict h d key hash perturb i =
     (if unat i < length (dk_indices d) then
        (case dk_indices d ! unat i of
           None \<Rightarrow> Some None
         | Some ix \<Rightarrow>
             (if ix < length (dk_entries d) then
                (case dk_entries d ! ix of (me_hash, me_key, me_value) \<Rightarrow>
                   (if me_key = key then Some (Some ix)
                    else if me_hash = hash \<and>
                            (case (deref h me_key, deref h key) of
                               (Some a, Some b) \<Rightarrow> list_eq a b
                             | _ \<Rightarrow> False)
                         then Some (Some ix)
                    else lookdict h d key hash (drop_bit PERTURB_SHIFT perturb)
                           ((i * 5 + drop_bit PERTURB_SHIFT perturb + 1) AND DK_MASK d)))
              else None))
      else None)"

definition dict_lookup :: "list_obj heap \<Rightarrow> PyDictObject \<Rightarrow> ref \<Rightarrow> Py_hash_t \<Rightarrow> nat option option" where
  "dict_lookup h d key hash = lookdict h d key hash hash (hash AND DK_MASK d)"

text \<open>
  \<^verbatim>\<open>{key: value}\<close>: the display hashes the key, which may raise, and inserts the pair
  into an empty dictionary: a table of \<open>PyDict_MINSIZE\<close> slots whose slot
  \<open>hash AND (PyDict_MINSIZE - 1)\<close> points at entry 0.
\<close>

definition insert_to_emptydict :: "ref \<Rightarrow> Py_hash_t \<Rightarrow> int \<Rightarrow> PyDictObject" where
  "insert_to_emptydict key hash v =
     (let hashpos = unat (hash AND word_of_nat (PyDict_MINSIZE - 1))
      in \<lparr>dk_indices = (replicate PyDict_MINSIZE None)[hashpos := Some 0],
          dk_entries = [(hash, key, v)]\<rparr>)"

definition dict_display :: "list_obj heap \<Rightarrow> ref \<Rightarrow> int \<Rightarrow> (exn + PyDictObject) option" where
  "dict_display h key v =
     (case deref h key of
        None \<Rightarrow> None
      | Some ob \<Rightarrow>
          (case PyObject_Hash ob of
             Inl e \<Rightarrow> Some (Inl e)
           | Inr hash \<Rightarrow> Some (Inr (insert_to_emptydict key hash v))))"

text \<open>
  \<^verbatim>\<open>d[key]\<close>: hash the key as it is now, look it up, and raise \<^verbatim>\<open>KeyError(key)\<close> when
  the lookup finds no entry.
\<close>

definition dict_subscript :: "list_obj heap \<Rightarrow> PyDictObject \<Rightarrow> ref \<Rightarrow> (exn + int) option" where
  "dict_subscript h d key =
     (case deref h key of
        None \<Rightarrow> None
      | Some ob \<Rightarrow>
          (case PyObject_Hash ob of
             Inl e \<Rightarrow> Some (Inl e)
           | Inr hash \<Rightarrow>
               (case dict_lookup h d key hash of
                  None \<Rightarrow> None
                | Some None \<Rightarrow> Some (Inl (KeyError key))
                | Some (Some ix) \<Rightarrow>
                    (case dk_entries d ! ix of (me_hash, me_key, me_value) \<Rightarrow>
                       Some (Inr me_value)))))"

section \<open>Python values\<close>

text \<open>
  The values the remaining notebooks pass around: \<^verbatim>\<open>None\<close>, booleans, integers (unbounded)
  and strings. A string is the list of its UTF-8 bytes, whose lexicographic order is the
  order of the code points that Python compares strings by.
\<close>

datatype pyval = NoneV | BoolV bool | IntV int | StrV string

fun type_name :: "pyval \<Rightarrow> string" where
  "type_name NoneV = ''NoneType''"
| "type_name (BoolV b) = ''bool''"
| "type_name (IntV n) = ''int''"
| "type_name (StrV s) = ''str''"

text \<open>\<^verbatim>\<open>bool\<close> is a subclass of \<^verbatim>\<open>int\<close>: \<^verbatim>\<open>True\<close> counts as 1 and \<^verbatim>\<open>False\<close> as 0.\<close>

fun as_int :: "pyval \<Rightarrow> int option" where
  "as_int (IntV n) = Some n"
| "as_int (BoolV b) = Some (if b then 1 else 0)"
| "as_int NoneV = None"
| "as_int (StrV s) = None"

fun str_lt :: "string \<Rightarrow> string \<Rightarrow> bool" where
  "str_lt [] [] = False"
| "str_lt [] (d # ds) = True"
| "str_lt (c # cs) [] = False"
| "str_lt (c # cs) (d # ds) =
     (if c = d then str_lt cs ds else (of_char c :: nat) < of_char d)"

datatype cmp_op = Lt | Le | Gt | Ge

fun op_symbol :: "cmp_op \<Rightarrow> string" where
  "op_symbol Lt = ''<''"
| "op_symbol Le = ''<=''"
| "op_symbol Gt = ''>''"
| "op_symbol Ge = ''>=''"

fun int_cmp :: "cmp_op \<Rightarrow> int \<Rightarrow> int \<Rightarrow> bool" where
  "int_cmp Lt x y = (x < y)"
| "int_cmp Le x y = (x \<le> y)"
| "int_cmp Gt x y = (y < x)"
| "int_cmp Ge x y = (y \<le> x)"

fun str_cmp :: "cmp_op \<Rightarrow> string \<Rightarrow> string \<Rightarrow> bool" where
  "str_cmp Lt s t = str_lt s t"
| "str_cmp Le s t = (s = t \<or> str_lt s t)"
| "str_cmp Gt s t = str_lt t s"
| "str_cmp Ge s t = (s = t \<or> str_lt t s)"

text \<open>
  An ordering comparison \<^verbatim>\<open>a op b\<close>: numbers compare by value, strings
  lexicographically, and any other pair of types raises \<^verbatim>\<open>TypeError\<close>.
\<close>

definition py_compare :: "cmp_op \<Rightarrow> pyval \<Rightarrow> pyval \<Rightarrow> exn + bool" where
  "py_compare oper a b =
     (case (as_int a, as_int b) of
        (Some x, Some y) \<Rightarrow> Inr (int_cmp oper x y)
      | _ \<Rightarrow>
        (case (a, b) of
           (StrV s, StrV t) \<Rightarrow> Inr (str_cmp oper s t)
         | _ \<Rightarrow>
           Inl (TypeError (quoted (op_symbol oper) @ '' not supported between instances of ''
                  @ quoted (type_name a) @ '' and '' @ quoted (type_name b)))))"

text \<open>\<^verbatim>\<open>a == b\<close> never raises on these values; values of unrelated types are unequal.\<close>

definition py_equal :: "pyval \<Rightarrow> pyval \<Rightarrow> bool" where
  "py_equal a b =
     (case (as_int a, as_int b) of
        (Some x, Some y) \<Rightarrow> x = y
      | _ \<Rightarrow> a = b)"

text \<open>
  Comparing two tuples with \<^verbatim>\<open>>\<close>: the first position where the items are not equal
  decides, by the items' own \<^verbatim>\<open>>\<close>; if one tuple is a prefix of the other, the lengths
  decide.
\<close>

fun tuple_gt :: "pyval list \<Rightarrow> pyval list \<Rightarrow> exn + bool" where
  "tuple_gt [] [] = Inr False"
| "tuple_gt [] (w # ws) = Inr False"
| "tuple_gt (v # vs) [] = Inr True"
| "tuple_gt (v # vs) (w # ws) =
     (if py_equal v w then tuple_gt vs ws else py_compare Gt v w)"

text \<open>\<^verbatim>\<open>str(n)\<close> for an integer, and what an f-string puts in for \<^verbatim>\<open>{v}\<close>.\<close>

fun show_nat :: "nat \<Rightarrow> string" where
  "show_nat n =
     (if n < 10 then [char_of (48 + n)]
      else show_nat (n div 10) @ [char_of (48 + n mod 10)])"

declare show_nat.simps [simp del]

definition show_int :: "int \<Rightarrow> string" where
  "show_int i = (if i < 0 then ''-'' @ show_nat (nat (- i)) else show_nat (nat i))"

fun py_str :: "pyval \<Rightarrow> string" where
  "py_str NoneV = ''None''"
| "py_str (BoolV b) = (if b then ''True'' else ''False'')"
| "py_str (IntV n) = show_int n"
| "py_str (StrV s) = s"

text \<open>
  An instance of a class defined in a notebook: its class, by name, and its
  \<^verbatim>\<open>__dict__\<close>, which holds the attributes set on it.
\<close>

record pyobject =
  ob_type :: string
  ob_dict :: "string \<rightharpoonup> pyval"

definition object_setattr :: "pyobject \<Rightarrow> string \<Rightarrow> pyval \<Rightarrow> pyobject" where
  "object_setattr self attr v = self\<lparr>ob_dict := (ob_dict self)(attr \<mapsto> v)\<rparr>"

definition getattr_dict :: "pyobject \<Rightarrow> string \<Rightarrow> exn + pyval" where
  "getattr_dict self attr =
     (case ob_dict self attr of
        Some v \<Rightarrow> Inr v
      | None \<Rightarrow>
          Inl (AttributeError (quoted (ob_type self) @ '' object has no attribute ''
                 @ quoted attr)))"

section \<open>Calling a function\<close>

text \<open>
  Binding the arguments of a call \<^verbatim>\<open>f(*args, **kwargs)\<close> to the parameters of a
  function that takes \<^verbatim>\<open>self\<close> and then \<open>params\<close>, the last of which have \<open>defaults\<close>.
  The interpreter binds the positional arguments, then the keywords (an unknown or an
  already bound name raises), then rejects surplus positional arguments, then fills in
  defaults and reports the parameters still missing. The result lists the values in the
  order of \<open>params\<close>. The counts in the messages include \<^verbatim>\<open>self\<close>.
\<close>

fun bind_keywords ::
  "string \<Rightarrow> string list \<Rightarrow> (string \<rightharpoonup> pyval) \<Rightarrow> (string \<times> pyval) list \<Rightarrow> exn + (string \<rightharpoonup> pyval)"
where
  "bind_keywords f params bound [] = Inr bound"
| "bind_keywords f params bound ((k, v) # kws) =
     (if k \<notin> set params then
        Inl (TypeError (f @ ''() got an unexpected keyword argument '' @ quoted k))
      else if bound k \<noteq> None then
        Inl (TypeError (f @ ''() got multiple values for argument '' @ quoted k))
      else bind_keywords f params (bound(k \<mapsto> v)) kws)"

definition too_many_positional :: "string \<Rightarrow> nat \<Rightarrow> nat \<Rightarrow> nat \<Rightarrow> exn" where
  "too_many_positional f co_argcount defcount given =
     TypeError (f @ ''() takes ''
       @ (if defcount \<noteq> 0
          then ''from '' @ show_nat (co_argcount - defcount) @ '' to '' @ show_nat co_argcount
          else show_nat co_argcount)
       @ '' positional argument''
       @ (if defcount = 0 \<and> co_argcount = 1 then '''' else ''s'')
       @ '' but '' @ show_nat given
       @ (if given = 1 then '' was'' else '' were'') @ '' given'')"

fun format_missing :: "string list \<Rightarrow> string" where
  "format_missing [] = ''''"
| "format_missing [a] = str_repr a"
| "format_missing [a, b] = str_repr a @ '' and '' @ str_repr b"
| "format_missing names =
     concat (map (\<lambda>n. str_repr n @ '', '') (butlast names)) @ ''and '' @ str_repr (last names)"

definition missing_arguments :: "string \<Rightarrow> string list \<Rightarrow> exn" where
  "missing_arguments f names =
     TypeError (f @ ''() missing '' @ show_nat (length names) @ '' required positional argument''
       @ (if length names = 1 then '''' else ''s'') @ '': '' @ format_missing names)"

definition bind_args ::
  "string \<Rightarrow> string list \<Rightarrow> (string \<rightharpoonup> pyval) \<Rightarrow> pyval list \<Rightarrow> (string \<times> pyval) list \<Rightarrow> exn + pyval list"
where
  "bind_args f params defaults args kwargs =
     (case bind_keywords f params (map_of (zip params args)) kwargs of
        Inl e \<Rightarrow> Inl e
      | Inr bound \<Rightarrow>
          if length params < length args then
            Inl (too_many_positional f (length params + 1)
                   (length (filter (\<lambda>p. defaults p \<noteq> None) params)) (length args + 1))
          else
            (case filter (\<lambda>p. (defaults ++ bound) p = None) params of
               [] \<Rightarrow> Inr (map (\<lambda>p. case (defaults ++ bound) p of Some v \<Rightarrow> v | None \<Rightarrow> NoneV) params)
             | missing \<Rightarrow> Inl (missing_arguments f missing)))"

text \<open>
  The \<^verbatim>\<open>__init__\<close> that \<^verbatim>\<open>@dataclass\<close> generates assigns each parameter to the field of
  its name, in order: by plain attribute assignment, or by \<^verbatim>\<open>object.__setattr__\<close> in a
  frozen class. Both store into the \<^verbatim>\<open>__dict__\<close> of the new object.
\<close>

definition init_fields :: "string \<Rightarrow> string list \<Rightarrow> pyval list \<Rightarrow> pyobject" where
  "init_fields cls params vals =
     foldl (\<lambda>self (p, v). object_setattr self p v)
       \<lparr>ob_type = cls, ob_dict = Map.empty\<rparr> (zip params vals)"

section \<open>The notebook on dataclasses\<close>

subsection \<open>Equality: a hand-written class and a dataclass\<close>

text \<open>
  \<^verbatim>\<open>
  class Person:
      def __init__(self, first_name, last_name, age):
          self.first_name = first_name
          self.last_name = last_name
          self.age = age

  @dataclass
  class DcPerson:
      first_name: str
      last_name: str
      age: int
  \<close>
  Instances are objects in the store; a variable holds a reference. \<^verbatim>\<open>Person\<close> defines
  no \<^verbatim>\<open>__eq__\<close> and inherits \<^verbatim>\<open>object.__eq__\<close>, which answers only for the same object.
  \<^verbatim>\<open>@dataclass\<close> generates \<^verbatim>\<open>DcPerson.__eq__\<close>, which compares the tuples of the fields
  when the other object has the same class. Either answers \<^verbatim>\<open>NotImplemented\<close>
  otherwise.
\<close>

datatype person_obj = Person string string int | DcPerson string string int

datatype richcmp = Returned bool | NotImplemented

definition Person_init :: "person_obj heap \<Rightarrow> string \<Rightarrow> string \<Rightarrow> int \<Rightarrow> ref \<times> person_obj heap" where
  "Person_init h first_name last_name age = alloc (Person first_name last_name age) h"

definition DcPerson_init :: "person_obj heap \<Rightarrow> string \<Rightarrow> string \<Rightarrow> int \<Rightarrow> ref \<times> person_obj heap" where
  "DcPerson_init h first_name last_name age = alloc (DcPerson first_name last_name age) h"

definition object_eq :: "ref \<Rightarrow> ref \<Rightarrow> richcmp" where
  "object_eq self other = (if self = other then Returned True else NotImplemented)"

fun DcPerson_eq :: "person_obj \<Rightarrow> person_obj \<Rightarrow> richcmp" where
  "DcPerson_eq (DcPerson f l a) (DcPerson f' l' a') = Returned ((f, l, a) = (f', l', a'))"
| "DcPerson_eq self other = NotImplemented"

text \<open>The \<^verbatim>\<open>__eq__\<close> of the class of \<open>self\<close>, called on \<open>self\<close> and \<open>other\<close>.\<close>

definition tp_eq :: "person_obj heap \<Rightarrow> ref \<Rightarrow> ref \<Rightarrow> richcmp option" where
  "tp_eq h self other =
     (case (deref h self, deref h other) of
        (Some x, Some y) \<Rightarrow>
          Some (case x of
                  Person f l a \<Rightarrow> object_eq self other
                | DcPerson f l a \<Rightarrow> DcPerson_eq x y)
      | _ \<Rightarrow> None)"

text \<open>
  \<^verbatim>\<open>a == b\<close>: the left operand's \<^verbatim>\<open>__eq__\<close>, then the right operand's with the
  operands swapped, and if both answer \<^verbatim>\<open>NotImplemented\<close>, whether they are the same
  object.
\<close>

definition py_eq :: "person_obj heap \<Rightarrow> ref \<Rightarrow> ref \<Rightarrow> bool option" where
  "py_eq h a b =
     (case tp_eq h a b of
        None \<Rightarrow> None
      | Some (Returned r) \<Rightarrow> Some r
      | Some NotImplemented \<Rightarrow>
          (case tp_eq h b a of
             None \<Rightarrow> None
           | Some (Returned r) \<Rightarrow> Some r
           | Some NotImplemented \<Rightarrow> Some (a = b)))"

subsection \<open>A default factory\<close>

text \<open>
  \<^verbatim>\<open>
  @dataclass
  class PersonDefaultFactory:
      name: str
      age: int = field(repr=False)
      email: str = field(default='')
      list_values: list = field(default_factory=list)
  \<close>
  The generated \<^verbatim>\<open>__init__\<close> calls the factory, \<^verbatim>\<open>list()\<close>, each time the argument is
  left out. The field holds a reference to a list object in the store.
\<close>

datatype PersonDefaultFactory = PersonDefaultFactory string int string ref

fun list_values :: "PersonDefaultFactory \<Rightarrow> ref" where
  "list_values (PersonDefaultFactory name age email lv) = lv"

definition PersonDefaultFactory_init ::
  "int list heap \<Rightarrow> string \<Rightarrow> int \<Rightarrow> string option \<Rightarrow> ref option \<Rightarrow> PersonDefaultFactory \<times> int list heap"
where
  "PersonDefaultFactory_init h name age email_arg list_values_arg =
     (let email = (case email_arg of None \<Rightarrow> '''' | Some e \<Rightarrow> e);
          (lv, h') = (case list_values_arg of None \<Rightarrow> alloc [] h | Some r \<Rightarrow> (r, h))
      in (PersonDefaultFactory name age email lv, h'))"

text \<open>\<^verbatim>\<open>xs.append(v)\<close> on the list object that \<open>r\<close> refers to.\<close>

definition heap_append :: "int list heap \<Rightarrow> ref \<Rightarrow> int \<Rightarrow> int list heap option" where
  "heap_append h r v =
     (case deref h r of None \<Rightarrow> None | Some xs \<Rightarrow> Some (assign h r (xs @ [v])))"

subsection \<open>Ordering\<close>

text \<open>
  \<^verbatim>\<open>
  @dataclass(order=True)
  class PersonOrder:
      name: str
      age: int

  @dataclass(order=True)
  class PersonOrderAge:
      name: str = field(compare=False)
      age: int
  \<close>
  The generated \<^verbatim>\<open>__gt__\<close> compares the tuple of the fields that take part in
  comparisons, in the order they are declared: \<^verbatim>\<open>(self.name, self.age)\<close> for
  \<^verbatim>\<open>PersonOrder\<close> and \<^verbatim>\<open>(self.age,)\<close> for \<^verbatim>\<open>PersonOrderAge\<close>.
\<close>

datatype PersonOrder = PersonOrder string int

datatype PersonOrderAge = PersonOrderAge string int

fun PersonOrder_gt :: "PersonOrder \<Rightarrow> PersonOrder \<Rightarrow> exn + bool" where
  "PersonOrder_gt (PersonOrder name age) (PersonOrder name' age') =
     tuple_gt [StrV name, IntV age] [StrV name', IntV age']"

fun PersonOrderAge_gt :: "PersonOrderAge \<Rightarrow> PersonOrderAge \<Rightarrow> exn + bool" where
  "PersonOrderAge_gt (PersonOrderAge name age) (PersonOrderAge name' age') =
     tuple_gt [IntV age] [IntV age']"

subsection \<open>A frozen dataclass\<close>

text \<open>
  \<^verbatim>\<open>
  @dataclass(frozen=True)
  class PersonFrozen:
      name: str
      age: int
  \<close>
  \<^verbatim>\<open>frozen=True\<close> generates a \<^verbatim>\<open>__setattr__\<close> that raises
  \<^verbatim>\<open>FrozenInstanceError(f"cannot assign to field {name!r}")\<close> when the object's class is
  \<^verbatim>\<open>PersonFrozen\<close> itself or the name is one of the fields, and defers to
  \<^verbatim>\<open>object.__setattr__\<close> otherwise. An assignment statement yields the
  exception raised, if any, and the object as it is afterwards.
\<close>

definition PersonFrozen_fields :: "string list" where
  "PersonFrozen_fields = [''name'', ''age'']"

definition PersonFrozen_init :: "pyval list \<Rightarrow> (string \<times> pyval) list \<Rightarrow> exn + pyobject" where
  "PersonFrozen_init args kwargs =
     (case bind_args ''PersonFrozen.__init__'' PersonFrozen_fields Map.empty args kwargs of
        Inl e \<Rightarrow> Inl e
      | Inr vals \<Rightarrow> Inr (init_fields ''PersonFrozen'' PersonFrozen_fields vals))"

definition PersonFrozen_setattr :: "pyobject \<Rightarrow> string \<Rightarrow> pyval \<Rightarrow> exn option \<times> pyobject" where
  "PersonFrozen_setattr self attr v =
     (if ob_type self = ''PersonFrozen'' \<or> attr \<in> set PersonFrozen_fields then
        (Some (FrozenInstanceError (''cannot assign to field '' @ str_repr attr)), self)
      else (None, object_setattr self attr v))"

subsection \<open>Post-initialisation\<close>

text \<open>
  \<^verbatim>\<open>
  @dataclass
  class PersonPostInit:
      name: str
      age: int
      email: str = field(default='')
      is_adult: bool = field(init=False)

      def __post_init__(self):
          if self.age < 0:
              raise ValueError(f'Age {self.age} is not valid')
          self.is_adult = self.age >= 18
  \<close>
  \<^verbatim>\<open>is_adult\<close> has \<^verbatim>\<open>init=False\<close> and no default, so the generated
  \<^verbatim>\<open>__init__(self, name, age, email='')\<close> neither takes nor sets it; after setting the
  other fields it calls \<^verbatim>\<open>__post_init__\<close>. An exception leaves the caller without an
  object.
\<close>

definition PersonPostInit_post_init :: "pyobject \<Rightarrow> exn + pyobject" where
  "PersonPostInit_post_init self =
     (case getattr_dict self ''age'' of
        Inl e \<Rightarrow> Inl e
      | Inr age \<Rightarrow>
          (case py_compare Lt age (IntV 0) of
             Inl e \<Rightarrow> Inl e
           | Inr True \<Rightarrow> Inl (ValueError (''Age '' @ py_str age @ '' is not valid''))
           | Inr False \<Rightarrow>
               (case py_compare Ge age (IntV 18) of
                  Inl e \<Rightarrow> Inl e
                | Inr b \<Rightarrow> Inr (object_setattr self ''is_adult'' (BoolV b)))))"

definition PersonPostInit_init :: "pyval list \<Rightarrow> (string \<times> pyval) list \<Rightarrow> exn + pyobject" where
  "PersonPostInit_init args kwargs =
     (case bind_args ''PersonPostInit.__init__'' [''name'', ''age'', ''email'']
             [''email'' \<mapsto> StrV ''''] args kwargs of
        Inl e \<Rightarrow> Inl e
      | Inr vals \<Rightarrow>
          PersonPostInit_post_init
            (init_fields ''PersonPostInit'' [''name'', ''age'', ''email''] vals))"

section \<open>Descriptors.ipynb\<close>

text \<open>
  \<^verbatim>\<open>
  class ValidationDescriptor:
      def __init__(self, min_=None, max_=None):
          self.default_value = 0
          self.min = min_
          self.max = max_

      def __set_name__(self, owner, name):
          self.name = name

      def __get__(self, instance, owner):
          print(f"Getting attribute in {owner} instance")
          return instance.__dict__.get(self.name, self.default_value)

      def __set__(self, instance, value):
          print(f"Setting attribute in {instance} instance to {value}")
          if not self.min <= value <= self.max:
              raise ValueError(f"{value} must be between {self.min} and {self.max}")
          instance.__dict__[self.name] = value
  \<close>
  A descriptor has no \<^verbatim>\<open>name\<close> until the class that holds it is created and calls
  \<^verbatim>\<open>__set_name__\<close>. The two \<^verbatim>\<open>print\<close> calls write a line that contains a memory
  address; standard output is not part of this model.
\<close>

record ValidationDescriptor =
  default_value :: pyval
  min_d :: pyval
  max_d :: pyval
  name_d :: "string option"

definition ValidationDescriptor_init :: "pyval option \<Rightarrow> pyval option \<Rightarrow> ValidationDescriptor" where
  "ValidationDescriptor_init min_arg max_arg =
     \<lparr>default_value = IntV 0,
      min_d = (case min_arg of None \<Rightarrow> NoneV | Some v \<Rightarrow> v),
      max_d = (case max_arg of None \<Rightarrow> NoneV | Some v \<Rightarrow> v),
      name_d = None\<rparr>"

definition ValidationDescriptor_set_name :: "ValidationDescriptor \<Rightarrow> string \<Rightarrow> ValidationDescriptor" where
  "ValidationDescriptor_set_name self name = self\<lparr>name_d := Some name\<rparr>"

definition no_name :: exn where
  "no_name = AttributeError (quoted ''ValidationDescriptor'' @ '' object has no attribute ''
               @ quoted ''name'')"

definition ValidationDescriptor_get :: "ValidationDescriptor \<Rightarrow> pyobject \<Rightarrow> exn + pyval" where
  "ValidationDescriptor_get self inst =
     (case name_d self of
        None \<Rightarrow> Inl no_name
      | Some name \<Rightarrow>
          (case ob_dict inst name of
             Some v \<Rightarrow> Inr v
           | None \<Rightarrow> Inr (default_value self)))"

text \<open>
  \<^verbatim>\<open>self.min <= value <= self.max\<close> is \<^verbatim>\<open>self.min <= value and value <= self.max\<close>:
  the second comparison runs only if the first is true. The test comes before the store,
  and an exception from it ends \<^verbatim>\<open>__set__\<close>.
\<close>

definition in_range :: "ValidationDescriptor \<Rightarrow> pyval \<Rightarrow> exn + bool" where
  "in_range self v =
     (case py_compare Le (min_d self) v of
        Inl e \<Rightarrow> Inl e
      | Inr False \<Rightarrow> Inr False
      | Inr True \<Rightarrow> py_compare Le v (max_d self))"

definition ValidationDescriptor_set ::
  "ValidationDescriptor \<Rightarrow> pyobject \<Rightarrow> pyval \<Rightarrow> exn option \<times> pyobject"
where
  "ValidationDescriptor_set self inst v =
     (case in_range self v of
        Inl e \<Rightarrow> (Some e, inst)
      | Inr False \<Rightarrow>
          (Some (ValueError (py_str v @ '' must be between '' @ py_str (min_d self)
                   @ '' and '' @ py_str (max_d self))), inst)
      | Inr True \<Rightarrow>
          (case name_d self of
             None \<Rightarrow> (Some no_name, inst)
           | Some name \<Rightarrow> (None, inst\<lparr>ob_dict := (ob_dict inst)(name \<mapsto> v)\<rparr>)))"

text \<open>
  \<^verbatim>\<open>
  class MyClass:
      value1 = ValidationDescriptor(min_=0, max_=100)
      value2 = ValidationDescriptor(min_=0, max_=100)
      def __init__(self, value1, value2):
          self.value1 = value1
          self.value2 = value2
  \<close>
  Creating the class names each descriptor after the attribute it is bound to. On an
  instance, assigning to or reading an attribute that the class binds to a descriptor
  calls the descriptor's \<^verbatim>\<open>__set__\<close> or \<^verbatim>\<open>__get__\<close>; any other attribute goes to the
  instance's \<^verbatim>\<open>__dict__\<close>.
\<close>

definition MyClass_value1 :: ValidationDescriptor where
  "MyClass_value1 =
     ValidationDescriptor_set_name
       (ValidationDescriptor_init (Some (IntV 0)) (Some (IntV 100))) ''value1''"

definition MyClass_value2 :: ValidationDescriptor where
  "MyClass_value2 =
     ValidationDescriptor_set_name
       (ValidationDescriptor_init (Some (IntV 0)) (Some (IntV 100))) ''value2''"

definition MyClass_descriptor :: "string \<Rightarrow> ValidationDescriptor option" where
  "MyClass_descriptor attr =
     (if attr = ''value1'' then Some MyClass_value1
      else if attr = ''value2'' then Some MyClass_value2
      else None)"

definition MyClass_setattr :: "pyobject \<Rightarrow> string \<Rightarrow> pyval \<Rightarrow> exn option \<times> pyobject" where
  "MyClass_setattr obj attr v =
     (case MyClass_descriptor attr of
        Some d \<Rightarrow> ValidationDescriptor_set d obj v
      | None \<Rightarrow> (None, object_setattr obj attr v))"

definition MyClass_getattr :: "pyobject \<Rightarrow> string \<Rightarrow> exn + pyval" where
  "MyClass_getattr obj attr =
     (case MyClass_descriptor attr of
        Some d \<Rightarrow> ValidationDescriptor_get d obj
      | None \<Rightarrow> getattr_dict obj attr)"

definition MyClass_init :: "pyval \<Rightarrow> pyval \<Rightarrow> exn + pyobject" where
  "MyClass_init value1 value2 =
     (case MyClass_setattr \<lparr>ob_type = ''MyClass'', ob_dict = Map.empty\<rparr> ''value1'' value1 of
        (Some e, self) \<Rightarrow> Inl e
      | (None, self) \<Rightarrow>
          (case MyClass_setattr self ''value2'' value2 of
             (Some e, self') \<Rightarrow> Inl e
           | (None, self') \<Rightarrow> Inr self'))"

section \<open>Properties: the store\<close>

lemma deref_alloc_new: "deref (snd (alloc v h)) (fst (alloc v h)) = Some v"
  by (simp add: deref_def alloc_def)

lemma deref_alloc_old: "r < length h \<Longrightarrow> deref (snd (alloc v h)) r = deref h r"
  by (simp add: deref_def alloc_def nth_append)

lemma deref_assign_same: "r < length h \<Longrightarrow> deref (assign h r v) r = Some v"
  by (simp add: deref_def assign_def)

lemma deref_assign_other: "r \<noteq> r' \<Longrightarrow> deref (assign h r v) r' = deref h r'"
  by (simp add: deref_def assign_def)

lemma deref_Some_less: "deref h r = Some v \<Longrightarrow> r < length h"
  by (simp add: deref_def split: if_splits)

section \<open>Properties: default arguments\<close>

lemma func1_default_call:
  assumes "deref (heap s) (func1_default s) = Some ys"
  shows "func1 x None s =
           Some (func1_default s, s\<lparr>heap := assign (heap s) (func1_default s) (ys @ [x])\<rparr>)"
  using assms by (simp add: func1_def Let_def)

lemma func1_calls_accumulate:
  "deref (heap s) (func1_default s) = Some ys \<Longrightarrow>
   \<exists>s'. func1_calls xs s = Some (func1_default s, s') \<and>
        func1_default s' = func1_default s \<and>
        shown s' (func1_default s) = Some (ys @ xs)"
proof (induction xs arbitrary: s ys)
  case Nil
  then show ?case by (simp add: shown_def)
next
  case (Cons x xs)
  let ?d = "func1_default s"
  let ?s1 = "s\<lparr>heap := assign (heap s) ?d (ys @ [x])\<rparr>"
  have step: "func1 x None s = Some (?d, ?s1)"
    by (rule func1_default_call [OF Cons.prems])
  have "?d < length (heap s)"
    using Cons.prems by (rule deref_Some_less)
  then have "deref (heap ?s1) (func1_default ?s1) = Some (ys @ [x])"
    by (simp add: deref_assign_same)
  from Cons.IH [OF this] step show ?case by simp
qed

text \<open>
  C1. The defaults are evaluated once, when the functions are defined. Calling
  \<^verbatim>\<open>func1(1)\<close> and then \<^verbatim>\<open>func1(2)\<close> returns the same list object, which shows
  \<^verbatim>\<open>[1]\<close> after the first call and \<^verbatim>\<open>[1, 2]\<close> after the second; calling \<^verbatim>\<open>func2(1)\<close>
  and then \<^verbatim>\<open>func2(2)\<close> returns \<^verbatim>\<open>(1,)\<close> and then \<^verbatim>\<open>(2,)\<close>. The calls are in the
  notebook's order: \<^verbatim>\<open>func1(1)\<close>, \<^verbatim>\<open>func2(1)\<close>, \<^verbatim>\<open>func1(2)\<close>, \<^verbatim>\<open>func2(2)\<close>, from any
  store the definitions are executed in.
\<close>

theorem func1_shares_default_func2_does_not:
  "\<exists>r1 s1 t1 s2 r2 s3 t2 s4.
     func1 1 None (define_funcs h) = Some (r1, s1) \<and> shown s1 r1 = Some [1] \<and>
     func2 1 None s1 = (t1, s2) \<and> t1 = [1] \<and>
     func1 2 None s2 = Some (r2, s3) \<and> shown s3 r2 = Some [1, 2] \<and> r2 = r1 \<and>
     func2 2 None s3 = (t2, s4) \<and> t2 = [2]"
proof -
  let ?s0 = "define_funcs h"
  let ?d = "length h"
  let ?s1 = "?s0\<lparr>heap := assign (heap ?s0) ?d [1]\<rparr>"
  let ?s3 = "?s1\<lparr>heap := assign (heap ?s1) ?d [1, 2]\<rparr>"
  have d: "func1_default ?s0 = ?d" and t: "func2_default ?s0 = []"
    by (simp_all add: define_funcs_def alloc_def)
  have c1: "func1 1 None ?s0 = Some (?d, ?s1)"
    by (simp add: func1_def Let_def define_funcs_def alloc_def deref_def)
  have p1: "shown ?s1 ?d = Some [1]"
    by (simp add: shown_def define_funcs_def alloc_def deref_def assign_def)
  have c2: "func2 1 None ?s1 = ([1], ?s1)"
    by (simp add: func2_def t)
  have c3: "func1 2 None ?s1 = Some (?d, ?s3)"
    by (simp add: func1_def Let_def define_funcs_def alloc_def deref_def assign_def)
  have p3: "shown ?s3 ?d = Some [1, 2]"
    by (simp add: shown_def define_funcs_def alloc_def deref_def assign_def)
  have c4: "func2 2 None ?s3 = ([2], ?s3)"
    by (simp add: func2_def t)
  from c1 p1 c2 c3 p3 c4 show ?thesis by blast
qed

section \<open>Properties: dictionary keys\<close>

lemma DK_MASK_emptydict: "DK_MASK (insert_to_emptydict key hash v) = 7"
  by (simp add: DK_MASK_def insert_to_emptydict_def PyDict_MINSIZE_def)

lemma unat_AND_7: "unat ((w :: 64 word) AND 7) < 8"
proof -
  have "unat (w AND 7) \<le> unat (7 :: 64 word)"
    by (rule word_and_le1 [THEN word_le_nat_alt [THEN iffD1]])
  then show ?thesis by simp
qed

text \<open>
  In a dictionary with one entry the first probe decides: it lands on the entry's slot,
  where the key is found by identity, or on an empty slot.
\<close>

lemma dict_lookup_same_slot:
  "hash' AND 7 = hash AND 7 \<Longrightarrow>
   dict_lookup h (insert_to_emptydict key hash v) key hash' = Some (Some 0)"
  unfolding dict_lookup_def DK_MASK_emptydict
  apply (subst lookdict.simps)
  using unat_AND_7 [of hash]
  apply (simp add: insert_to_emptydict_def PyDict_MINSIZE_def)
  done

lemma dict_lookup_other_slot:
  "hash' AND 7 \<noteq> hash AND 7 \<Longrightarrow>
   dict_lookup h (insert_to_emptydict key hash v) key' hash' = Some None"
  unfolding dict_lookup_def DK_MASK_emptydict
  apply (subst lookdict.simps)
  using unat_AND_7 [of hash] unat_AND_7 [of hash']
  apply (simp add: insert_to_emptydict_def PyDict_MINSIZE_def word_unat_eq_iff)
  done

lemma entries_emptydict: "dk_entries (insert_to_emptydict key hash v) ! 0 = (hash, key, v)"
  by (simp add: insert_to_emptydict_def)

text \<open>
  Looking up the key object itself in the dictionary it was inserted into, whatever its
  items are by now: the value if the hash of its present items selects the slot chosen
  at insertion, \<^verbatim>\<open>KeyError\<close> otherwise.
\<close>

lemma dict_subscript_emptydict:
  assumes "deref h key = Some (HashableList ys)"
  shows "dict_subscript h (insert_to_emptydict key hash v) key =
           Some (if HashableList_hash ys AND 7 = hash AND 7 then Inr v else Inl (KeyError key))"
proof (cases "HashableList_hash ys AND 7 = hash AND 7")
  case True
  then show ?thesis
    using assms by (simp add: dict_subscript_def dict_lookup_same_slot entries_emptydict)
next
  case False
  then show ?thesis
    using assms by (simp add: dict_subscript_def dict_lookup_other_slot)
qed

lemma hash_123: "HashableList_hash [1, 2, 3] = 529344067295497451"
  by (simp add: HashableList_hash_def tuplehash_def long_hash_def PyHASH_MODULUS_def
      XXPRIME_1_def XXPRIME_2_def XXPRIME_5_def XXROTATE_def)

lemma hash_1234: "HashableList_hash [1, 2, 3, 4] = 590899387183067792"
  by (simp add: HashableList_hash_def tuplehash_def long_hash_def PyHASH_MODULUS_def
      XXPRIME_1_def XXPRIME_2_def XXPRIME_5_def XXROTATE_def)

text \<open>
  C2. Hashability decides whether an object can be a key. For any items \<open>xs\<close> and any
  store: \<^verbatim>\<open>{listA: 1}\<close> with \<^verbatim>\<open>listA\<close> a built-in list of \<open>xs\<close> raises
  \<^verbatim>\<open>TypeError("unhashable type: 'list'")\<close>; with \<^verbatim>\<open>listB = HashableList(xs)\<close>,
  \<^verbatim>\<open>dictB = {listB: 1}\<close> is built and \<^verbatim>\<open>dictB[listB]\<close> returns 1. The notebook runs
  this with \<open>xs = [1, 2, 3]\<close>.
\<close>

theorem hashable_list_is_a_key_plain_list_is_not:
  "(case alloc (PyList xs) h of (listA, h1) \<Rightarrow>
      dict_display h1 listA 1 =
        Some (Inl (TypeError (''unhashable type: '' @ quoted ''list'')))) \<and>
   (case alloc (HashableList xs) h of (listB, h1) \<Rightarrow>
      \<exists>dictB. dict_display h1 listB 1 = Some (Inr dictB) \<and>
              dict_subscript h1 dictB listB = Some (Inr 1))"
proof -
  let ?r = "length h"
  have a: "deref (h @ [PyList xs]) ?r = Some (PyList xs)"
    and b: "deref (h @ [HashableList xs]) ?r = Some (HashableList xs)"
    by (simp_all add: deref_def)
  have "dict_display (h @ [PyList xs]) ?r 1 =
          Some (Inl (TypeError (''unhashable type: '' @ quoted ''list'')))"
    by (simp add: dict_display_def a)
  moreover have "dict_display (h @ [HashableList xs]) ?r 1 =
          Some (Inr (insert_to_emptydict ?r (HashableList_hash xs) 1))"
    by (simp add: dict_display_def b)
  moreover have "dict_subscript (h @ [HashableList xs])
          (insert_to_emptydict ?r (HashableList_hash xs) 1) ?r = Some (Inr 1)"
    by (simp add: dict_subscript_emptydict [OF b])
  ultimately show ?thesis by (simp add: alloc_def)
qed

text \<open>
  C3. Mutating a key whose hash depends on its items breaks the lookup. With
  \<^verbatim>\<open>listB = HashableList([1, 2, 3])\<close> and \<^verbatim>\<open>dictB = {listB: 1}\<close>, the lookup
  \<^verbatim>\<open>dictB[listB]\<close> returns 1; after \<^verbatim>\<open>listB.append(4)\<close> the same object holds
  \<^verbatim>\<open>[1, 2, 3, 4]\<close>, its hash is no longer the one it was inserted with, and
  \<^verbatim>\<open>dictB[listB]\<close> raises \<^verbatim>\<open>KeyError\<close> with the key as its argument.
\<close>

theorem mutated_key_is_lost:
  "case alloc (HashableList [1, 2, 3]) h of (listB, h1) \<Rightarrow>
     \<exists>dictB h2. dict_display h1 listB 1 = Some (Inr dictB) \<and>
       dict_subscript h1 dictB listB = Some (Inr 1) \<and>
       list_append h1 listB 4 = Some h2 \<and>
       deref h2 listB = Some (HashableList [1, 2, 3, 4]) \<and>
       HashableList_hash [1, 2, 3, 4] \<noteq> HashableList_hash [1, 2, 3] \<and>
       dict_subscript h2 dictB listB = Some (Inl (KeyError listB))"
proof -
  let ?r = "length h"
  let ?h1 = "h @ [HashableList [1, 2, 3]]"
  let ?h2 = "assign ?h1 ?r (HashableList [1, 2, 3, 4])"
  let ?d = "insert_to_emptydict ?r (HashableList_hash [1, 2, 3]) 1"
  have b: "deref ?h1 ?r = Some (HashableList [1, 2, 3])"
    by (simp add: deref_def)
  have c: "deref ?h2 ?r = Some (HashableList [1, 2, 3, 4])"
    by (simp add: deref_def assign_def)
  have "dict_display ?h1 ?r 1 = Some (Inr ?d)"
    by (simp add: dict_display_def b)
  moreover have "dict_subscript ?h1 ?d ?r = Some (Inr 1)"
    by (simp add: dict_subscript_emptydict [OF b])
  moreover have "list_append ?h1 ?r 4 = Some ?h2"
    by (simp add: list_append_def b)
  moreover have "HashableList_hash [1, 2, 3, 4] \<noteq> HashableList_hash [1, 2, 3]"
    by (simp add: hash_123 hash_1234)
  moreover have "dict_subscript ?h2 ?d ?r = Some (Inl (KeyError ?r))"
    by (simp add: dict_subscript_emptydict [OF c] hash_123 hash_1234)
  ultimately show ?thesis using c by (simp add: alloc_def)
qed

section \<open>Properties: dataclasses\<close>

lemma py_eq_DcPerson:
  assumes "deref h a = Some (DcPerson f l n)" and "deref h b = Some (DcPerson f' l' n')"
  shows "py_eq h a b = Some (f = f' \<and> l = l' \<and> n = n')"
  using assms by (simp add: py_eq_def tp_eq_def)

lemma py_eq_Person:
  assumes "deref h a = Some (Person f l n)" and "deref h b = Some (Person f' l' n')"
  shows "py_eq h a b = Some (a = b)"
  using assms by (simp add: py_eq_def tp_eq_def object_eq_def)

lemma deref_two_allocs:
  "deref (h @ [x, y]) (length h) = Some x" "deref (h @ [x, y]) (Suc (length h)) = Some y"
  by (simp_all add: deref_def nth_append)

lemma py_eq_DcPerson_Person:
  assumes "deref h a = Some (DcPerson f l n)" and "deref h b = Some (Person f' l' n')"
  shows "py_eq h a b = Some False" and "py_eq h b a = Some False"
proof -
  from assms have "a \<noteq> b" by auto
  with assms show "py_eq h a b = Some False" and "py_eq h b a = Some False"
    by (auto simp: py_eq_def tp_eq_def object_eq_def)
qed

text \<open>
  C4. Equality of a dataclass against equality of a hand-written class. \<^verbatim>\<open>==\<close> on two
  \<^verbatim>\<open>DcPerson\<close> instances compares them field by field: it is \<^verbatim>\<open>True\<close> exactly when the
  first names, the last names and the ages are equal, whether or not the two are the same
  object. \<^verbatim>\<open>==\<close> on two \<^verbatim>\<open>Person\<close> instances compares identity: it is \<^verbatim>\<open>True\<close> exactly
  when the two are the same object, whatever their fields hold. A \<^verbatim>\<open>DcPerson\<close> and a
  \<^verbatim>\<open>Person\<close> are never equal. So for the notebook's pairs: two instances constructed one
  after the other from the same values (there \<^verbatim>\<open>"Jas", "Gujral", 35\<close>) are distinct
  objects, equal as \<^verbatim>\<open>DcPerson\<close> and unequal as \<^verbatim>\<open>Person\<close>, while each \<^verbatim>\<open>Person\<close> is equal
  to itself.
\<close>

theorem dataclass_equality_by_fields_class_equality_by_identity:
  "(\<forall>a b. deref h a = Some (DcPerson f l n) \<and> deref h b = Some (DcPerson f' l' n')
       \<longrightarrow> py_eq h a b = Some (f = f' \<and> l = l' \<and> n = n')) \<and>
   (\<forall>a b. deref h a = Some (Person f l n) \<and> deref h b = Some (Person f' l' n')
       \<longrightarrow> py_eq h a b = Some (a = b)) \<and>
   (\<forall>a b. deref h a = Some (DcPerson f l n) \<and> deref h b = Some (Person f' l' n')
       \<longrightarrow> py_eq h a b = Some False \<and> py_eq h b a = Some False) \<and>
   (case DcPerson_init h f l n of (dc_personA, h1) \<Rightarrow>
      case DcPerson_init h1 f l n of (dc_personB, h2) \<Rightarrow>
        dc_personA \<noteq> dc_personB \<and> py_eq h2 dc_personA dc_personB = Some True) \<and>
   (case Person_init h f l n of (personA, h1) \<Rightarrow>
      case Person_init h1 f l n of (personB, h2) \<Rightarrow>
        personA \<noteq> personB \<and> py_eq h2 personA personB = Some False \<and>
        py_eq h2 personA personA = Some True \<and> py_eq h2 personB personB = Some True)"
proof (intro conjI allI impI)
  fix a b
  assume "deref h a = Some (DcPerson f l n) \<and> deref h b = Some (DcPerson f' l' n')"
  then show "py_eq h a b = Some (f = f' \<and> l = l' \<and> n = n')"
    by (simp add: py_eq_DcPerson)
next
  fix a b
  assume "deref h a = Some (Person f l n) \<and> deref h b = Some (Person f' l' n')"
  then show "py_eq h a b = Some (a = b)"
    by (simp add: py_eq_Person)
next
  fix a b
  assume *: "deref h a = Some (DcPerson f l n) \<and> deref h b = Some (Person f' l' n')"
  then show "py_eq h a b = Some False"
    by (simp add: py_eq_DcPerson_Person(1))
  from * show "py_eq h b a = Some False"
    by (simp add: py_eq_DcPerson_Person(2))
next
  show "case DcPerson_init h f l n of (dc_personA, h1) \<Rightarrow>
      case DcPerson_init h1 f l n of (dc_personB, h2) \<Rightarrow>
        dc_personA \<noteq> dc_personB \<and> py_eq h2 dc_personA dc_personB = Some True"
    using py_eq_DcPerson [OF deref_two_allocs(1) deref_two_allocs(2)]
    by (simp add: DcPerson_init_def alloc_def)
next
  show "case Person_init h f l n of (personA, h1) \<Rightarrow>
      case Person_init h1 f l n of (personB, h2) \<Rightarrow>
        personA \<noteq> personB \<and> py_eq h2 personA personB = Some False \<and>
        py_eq h2 personA personA = Some True \<and> py_eq h2 personB personB = Some True"
    using py_eq_Person [OF deref_two_allocs(1) deref_two_allocs(2)]
      py_eq_Person [OF deref_two_allocs(1) deref_two_allocs(1)]
      py_eq_Person [OF deref_two_allocs(2) deref_two_allocs(2)]
    by (simp add: Person_init_def alloc_def)
qed

theorem dataclass_equality_witness:
  "py_eq [DcPerson ''Jas'' ''Gujral'' 35, DcPerson ''Jas'' ''Gujral'' 35,
          Person ''Jas'' ''Gujral'' 35, Person ''Jas'' ''Gujral'' 35,
          DcPerson ''Jas'' ''Gujral'' 36] 0 1 = Some True \<and>
   py_eq [DcPerson ''Jas'' ''Gujral'' 35, DcPerson ''Jas'' ''Gujral'' 35,
          Person ''Jas'' ''Gujral'' 35, Person ''Jas'' ''Gujral'' 35,
          DcPerson ''Jas'' ''Gujral'' 36] 0 4 = Some False \<and>
   py_eq [DcPerson ''Jas'' ''Gujral'' 35, DcPerson ''Jas'' ''Gujral'' 35,
          Person ''Jas'' ''Gujral'' 35, Person ''Jas'' ''Gujral'' 35,
          DcPerson ''Jas'' ''Gujral'' 36] 2 3 = Some False \<and>
   py_eq [DcPerson ''Jas'' ''Gujral'' 35, DcPerson ''Jas'' ''Gujral'' 35,
          Person ''Jas'' ''Gujral'' 35, Person ''Jas'' ''Gujral'' 35,
          DcPerson ''Jas'' ''Gujral'' 36] 2 2 = Some True \<and>
   py_eq [DcPerson ''Jas'' ''Gujral'' 35, DcPerson ''Jas'' ''Gujral'' 35,
          Person ''Jas'' ''Gujral'' 35, Person ''Jas'' ''Gujral'' 35,
          DcPerson ''Jas'' ''Gujral'' 36] 0 2 = Some False"
proof -
  let ?h = "[DcPerson ''Jas'' ''Gujral'' 35, DcPerson ''Jas'' ''Gujral'' 35,
             Person ''Jas'' ''Gujral'' 35, Person ''Jas'' ''Gujral'' 35,
             DcPerson ''Jas'' ''Gujral'' 36]"
  note same = dataclass_equality_by_fields_class_equality_by_identity
                [of ?h "''Jas''" "''Gujral''" 35 "''Jas''" "''Gujral''" 35]
  note other = dataclass_equality_by_fields_class_equality_by_identity
                [of ?h "''Jas''" "''Gujral''" 35 "''Jas''" "''Gujral''" 36]
  have d: "deref ?h 0 = Some (DcPerson ''Jas'' ''Gujral'' 35)"
          "deref ?h 1 = Some (DcPerson ''Jas'' ''Gujral'' 35)"
          "deref ?h 2 = Some (Person ''Jas'' ''Gujral'' 35)"
          "deref ?h 3 = Some (Person ''Jas'' ''Gujral'' 35)"
          "deref ?h 4 = Some (DcPerson ''Jas'' ''Gujral'' 36)"
    by (simp_all add: deref_def)
  have "py_eq ?h 0 1 = Some (''Jas'' = ''Jas'' \<and> ''Gujral'' = ''Gujral'' \<and> (35::int) = 35)"
    using same d(1,2) by blast
  then have e1: "py_eq ?h 0 1 = Some True" by simp
  have "py_eq ?h 0 4 = Some (''Jas'' = ''Jas'' \<and> ''Gujral'' = ''Gujral'' \<and> (35::int) = 36)"
    using other d(1,5) by blast
  then have e2: "py_eq ?h 0 4 = Some False" by simp
  have "py_eq ?h 2 3 = Some ((2::nat) = 3)"
    using same d(3,4) by blast
  then have e3: "py_eq ?h 2 3 = Some False" by simp
  have "py_eq ?h 2 2 = Some ((2::nat) = 2)"
    using same d(3) by blast
  then have e4: "py_eq ?h 2 2 = Some True" by simp
  have e5: "py_eq ?h 0 2 = Some False"
    using same d(1,3) by blast
  from e1 e2 e3 e4 e5 show ?thesis by blast
qed

lemma py_equal_StrV [simp]: "py_equal (StrV s) (StrV t) = (s = t)"
  by (simp add: py_equal_def)

lemma py_equal_IntV [simp]: "py_equal (IntV x) (IntV y) = (x = y)"
  by (simp add: py_equal_def)

lemma py_compare_IntV [simp]: "py_compare oper (IntV x) (IntV y) = Inr (int_cmp oper x y)"
  by (simp add: py_compare_def)

lemma py_compare_StrV [simp]: "py_compare oper (StrV s) (StrV t) = Inr (str_cmp oper s t)"
  by (simp add: py_compare_def)

text \<open>
  C5. \<^verbatim>\<open>order=True\<close> compares the fields in the order they are declared and leaves out a
  field with \<^verbatim>\<open>compare=False\<close>. \<^verbatim>\<open>PersonOrder('Alice', 30) > PersonOrder('Bob', 25)\<close> is
  \<^verbatim>\<open>False\<close> and \<^verbatim>\<open>PersonOrderAge('Alice', 30) > PersonOrderAge('Bob', 25)\<close> is \<^verbatim>\<open>True\<close>.
  In general \<^verbatim>\<open>PersonOrder\<close> compares the names and looks at the ages only when the names
  are equal, and \<^verbatim>\<open>PersonOrderAge\<close> compares the ages alone.
\<close>

theorem order_compares_fields_in_declaration_order:
  "PersonOrder_gt (PersonOrder ''Alice'' 30) (PersonOrder ''Bob'' 25) = Inr False \<and>
   PersonOrderAge_gt (PersonOrderAge ''Alice'' 30) (PersonOrderAge ''Bob'' 25) = Inr True \<and>
   PersonOrder_gt (PersonOrder name age) (PersonOrder name' age') =
     Inr (if name = name' then age' < age else str_lt name' name) \<and>
   PersonOrderAge_gt (PersonOrderAge name age) (PersonOrderAge name' age') = Inr (age' < age)"
  by simp

text \<open>
  C10. \<^verbatim>\<open>default_factory=list\<close> gives each instance its own list. In the notebook's
  order (construct \<^verbatim>\<open>person10\<close>, append 1 to its \<^verbatim>\<open>list_values\<close>, construct \<^verbatim>\<open>person11\<close>)
  \<^verbatim>\<open>person10.list_values\<close> is \<^verbatim>\<open>[1]\<close> and \<^verbatim>\<open>person11.list_values\<close> is \<^verbatim>\<open>[]\<close>. And for
  any two instances constructed without the \<^verbatim>\<open>list_values\<close> argument, the two lists are
  different objects: appending to either leaves the other as it was.
\<close>

theorem default_factory_gives_each_instance_its_own_list:
  "(case PersonDefaultFactory_init h ''Eve'' 45 (Some ''test@test.com'') None of (person10, h1) \<Rightarrow>
      \<exists>h2. heap_append h1 (list_values person10) 1 = Some h2 \<and>
        (case PersonDefaultFactory_init h2 ''Dave'' 40 (Some ''dave@tests.com'') None of
           (person11, h3) \<Rightarrow>
             list_values person10 \<noteq> list_values person11 \<and>
             deref h3 (list_values person10) = Some [1] \<and>
             deref h3 (list_values person11) = Some [])) \<and>
   (case PersonDefaultFactory_init h n a e None of (p, h1) \<Rightarrow>
      case PersonDefaultFactory_init h1 n' a' e' None of (q, h2) \<Rightarrow>
        list_values p \<noteq> list_values q \<and>
        (\<exists>h3. heap_append h2 (list_values p) v = Some h3 \<and>
               deref h3 (list_values p) = Some [v] \<and>
               deref h3 (list_values q) = deref h2 (list_values q) \<and>
               deref h3 (list_values q) = Some []) \<and>
        (\<exists>h3. heap_append h2 (list_values q) v = Some h3 \<and>
               deref h3 (list_values q) = Some [v] \<and>
               deref h3 (list_values p) = deref h2 (list_values p) \<and>
               deref h3 (list_values p) = Some []))"
  by (simp add: PersonDefaultFactory_init_def alloc_def heap_append_def deref_def assign_def
      nth_append)

section \<open>Properties: construction\<close>

lemma foldl_setattr_type:
  "ob_type (foldl (\<lambda>self (p, v). object_setattr self p v) s pvs) = ob_type s"
  by (induction pvs arbitrary: s) (auto simp: object_setattr_def)

lemma init_fields_type: "ob_type (init_fields cls params vals) = cls"
  by (simp add: init_fields_def foldl_setattr_type)

lemma bind_args_length:
  "bind_args f params defaults args kwargs = Inr vals \<Longrightarrow> length vals = length params"
  by (auto simp: bind_args_def split: sum.splits if_splits list.splits)

lemma bind_keywords_unexpected:
  "k \<in> fst ` set kws \<Longrightarrow> k \<notin> set params \<Longrightarrow>
   \<exists>msg. bind_keywords f params bound kws = Inl (TypeError msg)"
proof (induction kws arbitrary: bound)
  case Nil
  then show ?case by simp
next
  case (Cons kv kws)
  obtain k' v' where kv: "kv = (k', v')" by (cases kv)
  show ?case
  proof (cases "k' \<notin> set params \<or> bound k' \<noteq> None")
    case True
    then show ?thesis by (auto simp: kv)
  next
    case False
    then have "k \<noteq> k'" using Cons.prems(2) by auto
    then have "k \<in> fst ` set kws" using Cons.prems(1) by (auto simp: kv)
    from Cons.IH [OF this Cons.prems(2)] False show ?thesis by (auto simp: kv)
  qed
qed

lemma bind_args_unexpected:
  "k \<in> fst ` set kwargs \<Longrightarrow> k \<notin> set params \<Longrightarrow>
   \<exists>msg. bind_args f params defaults args kwargs = Inl (TypeError msg)"
  using bind_keywords_unexpected [of k kwargs params f "map_of (zip params args)"]
  by (auto simp: bind_args_def)

lemma bind_args_positional:
  "length args = length params \<Longrightarrow> distinct params \<Longrightarrow>
   bind_args f params defaults args [] = Inr args"
proof -
  assume len: "length args = length params" and dist: "distinct params"
  have dom: "\<And>p. p \<in> set params \<Longrightarrow> map_of (zip params args) p \<noteq> None"
    using len by (simp add: map_of_zip_is_None)
  have "filter (\<lambda>p. (defaults ++ map_of (zip params args)) p = None) params = []"
    using dom by (simp add: filter_empty_conv)
  moreover have "map (\<lambda>p. case (defaults ++ map_of (zip params args)) p of
                     Some v \<Rightarrow> v | None \<Rightarrow> NoneV) params = args"
  proof (rule nth_equalityI)
    show "length (map (\<lambda>p. case (defaults ++ map_of (zip params args)) p of
                     Some v \<Rightarrow> v | None \<Rightarrow> NoneV) params) = length args"
      using len by simp
  next
    fix i
    assume "i < length (map (\<lambda>p. case (defaults ++ map_of (zip params args)) p of
                     Some v \<Rightarrow> v | None \<Rightarrow> NoneV) params)"
    then have i: "i < length params" by simp
    have "map_of (zip params args) (params ! i) = Some (args ! i)"
      using i len dist by (simp add: map_of_zip_nth)
    then show "map (\<lambda>p. case (defaults ++ map_of (zip params args)) p of
                     Some v \<Rightarrow> v | None \<Rightarrow> NoneV) params ! i = args ! i"
      using i by (simp add: map_add_def)
  qed
  ultimately show ?thesis using len by (simp add: bind_args_def)
qed

section \<open>Properties: frozen\<close>

lemma PersonFrozen_init_type:
  "PersonFrozen_init args kwargs = Inr self \<Longrightarrow> ob_type self = ''PersonFrozen''"
  by (auto simp: PersonFrozen_init_def init_fields_type split: sum.splits)

lemma str_repr_fields: "str_repr ''name'' = quoted ''name''" "str_repr ''age'' = quoted ''age''"
  by (simp_all add: str_repr_def repr_char_def quoted_def Let_def)

text \<open>A name with an apostrophe in it is shown between double quotes.\<close>

lemma str_repr_apostrophe:
  "str_repr [CHR ''a'', CHR 0x27, CHR ''b''] = [CHR 0x22, CHR ''a'', CHR 0x27, CHR ''b'', CHR 0x22]"
  by (simp add: str_repr_def repr_char_def Let_def)

text \<open>
  C6. A frozen dataclass is immutable. On every \<^verbatim>\<open>PersonFrozen\<close> instance, however it was
  constructed, assigning to an attribute raises \<^verbatim>\<open>FrozenInstanceError\<close> and leaves the
  object as it was; for a declared field, \<^verbatim>\<open>name\<close> or \<^verbatim>\<open>age\<close>, the message is
  \<^verbatim>\<open>cannot assign to field\<close> and the field's name between apostrophes. For
  \<^verbatim>\<open>person16 = PersonFrozen(name, age)\<close>, the statement \<^verbatim>\<open>person16.age = v\<close> raises
  \<^verbatim>\<open>cannot assign to field 'age'\<close>, and \<^verbatim>\<open>person16\<close> still has the name and the age it was
  constructed with.
\<close>

theorem frozen_instance_rejects_assignment:
  "(PersonFrozen_init args kwargs = Inr self \<longrightarrow>
      (\<exists>msg. PersonFrozen_setattr self attr v = (Some (FrozenInstanceError msg), self)) \<and>
      (attr \<in> set PersonFrozen_fields \<longrightarrow>
         PersonFrozen_setattr self attr v =
           (Some (FrozenInstanceError (''cannot assign to field '' @ quoted attr)), self))) \<and>
   (\<exists>person16. PersonFrozen_init [name, age] [] = Inr person16 \<and>
      ob_dict person16 ''name'' = Some name \<and> ob_dict person16 ''age'' = Some age \<and>
      PersonFrozen_setattr person16 ''age'' v =
        (Some (FrozenInstanceError (''cannot assign to field '' @ quoted ''age'')), person16) \<and>
      ob_dict (snd (PersonFrozen_setattr person16 ''age'' v)) ''name'' = Some name \<and>
      ob_dict (snd (PersonFrozen_setattr person16 ''age'' v)) ''age'' = Some age)"
proof (intro conjI impI)
  assume "PersonFrozen_init args kwargs = Inr self"
  then have t: "ob_type self = ''PersonFrozen''" by (rule PersonFrozen_init_type)
  then show "\<exists>msg. PersonFrozen_setattr self attr v = (Some (FrozenInstanceError msg), self)"
    by (simp add: PersonFrozen_setattr_def)
  assume "attr \<in> set PersonFrozen_fields"
  then have "str_repr attr = quoted attr"
    by (auto simp: PersonFrozen_fields_def str_repr_fields)
  with t show "PersonFrozen_setattr self attr v =
        (Some (FrozenInstanceError (''cannot assign to field '' @ quoted attr)), self)"
    by (simp add: PersonFrozen_setattr_def)
next
  let ?p = "init_fields ''PersonFrozen'' PersonFrozen_fields [name, age]"
  have "bind_args ''PersonFrozen.__init__'' PersonFrozen_fields Map.empty [name, age] [] =
          Inr [name, age]"
    by (rule bind_args_positional) (simp_all add: PersonFrozen_fields_def)
  then have "PersonFrozen_init [name, age] [] = Inr ?p"
    by (simp add: PersonFrozen_init_def)
  moreover have d: "ob_dict ?p ''name'' = Some name" "ob_dict ?p ''age'' = Some age"
    by (simp_all add: init_fields_def PersonFrozen_fields_def object_setattr_def)
  moreover have s: "PersonFrozen_setattr ?p ''age'' v =
        (Some (FrozenInstanceError (''cannot assign to field '' @ quoted ''age'')), ?p)"
    by (simp add: PersonFrozen_setattr_def init_fields_type str_repr_fields)
  moreover have "ob_dict (snd (PersonFrozen_setattr ?p ''age'' v)) ''name'' = Some name"
    "ob_dict (snd (PersonFrozen_setattr ?p ''age'' v)) ''age'' = Some age"
    by (simp_all add: s d)
  ultimately show "\<exists>person16. PersonFrozen_init [name, age] [] = Inr person16 \<and>
      ob_dict person16 ''name'' = Some name \<and> ob_dict person16 ''age'' = Some age \<and>
      PersonFrozen_setattr person16 ''age'' v =
        (Some (FrozenInstanceError (''cannot assign to field '' @ quoted ''age'')), person16) \<and>
      ob_dict (snd (PersonFrozen_setattr person16 ''age'' v)) ''name'' = Some name \<and>
      ob_dict (snd (PersonFrozen_setattr person16 ''age'' v)) ''age'' = Some age"
    by blast
qed

theorem frozen_instance_witness:
  "PersonFrozen_init [StrV ''Alice'', IntV 30] [] =
     Inr \<lparr>ob_type = ''PersonFrozen'',
          ob_dict = [''name'' \<mapsto> StrV ''Alice'', ''age'' \<mapsto> IntV 30]\<rparr> \<and>
   ''age'' \<in> set PersonFrozen_fields \<and>
   PersonFrozen_setattr
     \<lparr>ob_type = ''PersonFrozen'', ob_dict = [''name'' \<mapsto> StrV ''Alice'', ''age'' \<mapsto> IntV 30]\<rparr>
     ''age'' (IntV 40) =
     (Some (FrozenInstanceError (''cannot assign to field '' @ quoted ''age'')),
      \<lparr>ob_type = ''PersonFrozen'', ob_dict = [''name'' \<mapsto> StrV ''Alice'', ''age'' \<mapsto> IntV 30]\<rparr>)"
proof -
  let ?p = "\<lparr>ob_type = ''PersonFrozen'',
             ob_dict = [''name'' \<mapsto> StrV ''Alice'', ''age'' \<mapsto> IntV 30]\<rparr>"
  have c: "PersonFrozen_init [StrV ''Alice'', IntV 30] [] = Inr ?p"
    by (simp add: PersonFrozen_init_def bind_args_def PersonFrozen_fields_def init_fields_def
        object_setattr_def)
  have f: "''age'' \<in> set PersonFrozen_fields"
    by (simp add: PersonFrozen_fields_def)
  from c f frozen_instance_rejects_assignment
         [of "[StrV ''Alice'', IntV 30]" "[]" ?p "''age''" "IntV 40"]
  show ?thesis by blast
qed

section \<open>Properties: post-initialisation\<close>

lemma py_compare_int_left:
  "as_int v = Some a \<Longrightarrow> py_compare oper v (IntV k) = Inr (int_cmp oper a k)"
  by (simp add: py_compare_def)


lemma py_compare_not_int:
  "as_int v = None \<Longrightarrow> \<exists>msg. py_compare oper v (IntV k) = Inl (TypeError msg)"
  by (cases v) (simp_all add: py_compare_def)

lemma post_init_number:
  assumes "ob_dict self ''age'' = Some age" and "as_int age = Some a"
  shows "PersonPostInit_post_init self =
           (if a < 0 then Inl (ValueError (''Age '' @ py_str age @ '' is not valid''))
            else Inr (object_setattr self ''is_adult'' (BoolV (18 \<le> a))))"
  using assms
  by (simp add: PersonPostInit_post_init_def getattr_dict_def py_compare_int_left)

lemma post_init_not_number:
  assumes "ob_dict self ''age'' = Some age" and "as_int age = None"
  shows "\<exists>msg. PersonPostInit_post_init self = Inl (TypeError msg)"
  using assms py_compare_not_int [of age Lt 0]
  by (auto simp: PersonPostInit_post_init_def getattr_dict_def)

lemma init_fields_three:
  "init_fields cls [''name'', ''age'', ''email''] [n, a, e] =
     \<lparr>ob_type = cls, ob_dict = [''name'' \<mapsto> n, ''age'' \<mapsto> a, ''email'' \<mapsto> e]\<rparr>"
  by (simp add: init_fields_def object_setattr_def)

lemma PersonPostInit_init_bound:
  assumes "bind_args ''PersonPostInit.__init__'' [''name'', ''age'', ''email'']
             [''email'' \<mapsto> StrV ''''] args kwargs = Inr [n, age, e]"
    and "as_int age = Some a"
  shows "PersonPostInit_init args kwargs =
           (if a < 0 then Inl (ValueError (''Age '' @ py_str age @ '' is not valid''))
            else Inr \<lparr>ob_type = ''PersonPostInit'',
                      ob_dict = [''name'' \<mapsto> n, ''age'' \<mapsto> age, ''email'' \<mapsto> e,
                                 ''is_adult'' \<mapsto> BoolV (18 \<le> a)]\<rparr>)"
proof -
  let ?self = "\<lparr>ob_type = ''PersonPostInit'',
                ob_dict = [''name'' \<mapsto> n, ''age'' \<mapsto> age, ''email'' \<mapsto> e]\<rparr>"
  have "ob_dict ?self ''age'' = Some age" by simp
  from post_init_number [OF this assms(2)] assms(1) show ?thesis
    by (simp add: PersonPostInit_init_def init_fields_three object_setattr_def)
qed

lemma PersonPostInit_init_Inr:
  assumes "PersonPostInit_init args kwargs = Inr p"
  shows "\<exists>age a. ob_dict p ''age'' = Some age \<and> as_int age = Some a \<and> 0 \<le> a \<and>
           ob_dict p ''is_adult'' = Some (BoolV (18 \<le> a))"
proof -
  from assms obtain vals where
    b: "bind_args ''PersonPostInit.__init__'' [''name'', ''age'', ''email'']
          [''email'' \<mapsto> StrV ''''] args kwargs = Inr vals"
    by (auto simp: PersonPostInit_init_def split: sum.splits)
  from bind_args_length [OF b] have "length vals = 3" by simp
  then obtain n age e where vals: "vals = [n, age, e]"
    by (auto simp: length_Suc_conv numeral_3_eq_3)
  let ?self = "\<lparr>ob_type = ''PersonPostInit'',
                ob_dict = [''name'' \<mapsto> n, ''age'' \<mapsto> age, ''email'' \<mapsto> e]\<rparr>"
  have age: "ob_dict ?self ''age'' = Some age" by simp
  show ?thesis
  proof (cases "as_int age")
    case None
    from post_init_not_number [OF age None] assms b show ?thesis
      by (auto simp: PersonPostInit_init_def vals init_fields_three)
  next
    case (Some a)
    from PersonPostInit_init_bound [OF b [unfolded vals] Some] assms
    have "0 \<le> a" and "p = \<lparr>ob_type = ''PersonPostInit'',
                      ob_dict = [''name'' \<mapsto> n, ''age'' \<mapsto> age, ''email'' \<mapsto> e,
                                 ''is_adult'' \<mapsto> BoolV (18 \<le> a)]\<rparr>"
      by (auto split: if_splits)
    with Some show ?thesis by auto
  qed
qed

text \<open>
  C7. The post-construction hook of \<^verbatim>\<open>PersonPostInit\<close>. A call that passes the keyword
  \<^verbatim>\<open>is_adult\<close> raises \<^verbatim>\<open>TypeError\<close>, whatever else it passes. Every call that returns an
  object returns one whose \<^verbatim>\<open>age\<close> is a number \<open>a \<ge> 0\<close> and whose \<^verbatim>\<open>is_adult\<close> is
  \<open>a \<ge> 18\<close>. A call \<^verbatim>\<open>PersonPostInit(name, n, email)\<close> with an integer \<open>n \<ge> 0\<close> returns
  such an object, and with \<open>n < 0\<close> it raises \<^verbatim>\<open>ValueError\<close> with the message
  \<^verbatim>\<open>Age n is not valid\<close>.
\<close>

theorem post_init_hook:
  "(''is_adult'' \<in> fst ` set kwargs \<longrightarrow>
      (\<exists>msg. PersonPostInit_init args kwargs = Inl (TypeError msg))) \<and>
   (PersonPostInit_init args kwargs = Inr p \<longrightarrow>
      (\<exists>age a. ob_dict p ''age'' = Some age \<and> as_int age = Some a \<and> 0 \<le> a \<and>
         ob_dict p ''is_adult'' = Some (BoolV (18 \<le> a)))) \<and>
   (0 \<le> n \<longrightarrow>
      PersonPostInit_init [name, IntV n, email] [] =
        Inr \<lparr>ob_type = ''PersonPostInit'',
             ob_dict = [''name'' \<mapsto> name, ''age'' \<mapsto> IntV n, ''email'' \<mapsto> email,
                        ''is_adult'' \<mapsto> BoolV (18 \<le> n)]\<rparr>) \<and>
   (n < 0 \<longrightarrow>
      PersonPostInit_init [name, IntV n, email] [] =
        Inl (ValueError (''Age '' @ show_int n @ '' is not valid'')))"
proof -
  have b: "bind_args ''PersonPostInit.__init__'' [''name'', ''age'', ''email'']
             [''email'' \<mapsto> StrV ''''] [name, IntV n, email] [] = Inr [name, IntV n, email]"
    by (rule bind_args_positional) simp_all
  have i: "as_int (IntV n) = Some n" by simp
  have "''is_adult'' \<in> fst ` set kwargs \<longrightarrow>
      (\<exists>msg. PersonPostInit_init args kwargs = Inl (TypeError msg))"
  proof
    assume "''is_adult'' \<in> fst ` set kwargs"
    from bind_args_unexpected [OF this, of "[''name'', ''age'', ''email'']"
           "''PersonPostInit.__init__''" "[''email'' \<mapsto> StrV '''']" args]
    show "\<exists>msg. PersonPostInit_init args kwargs = Inl (TypeError msg)"
      by (auto simp: PersonPostInit_init_def)
  qed
  moreover have "PersonPostInit_init args kwargs = Inr p \<longrightarrow>
      (\<exists>age a. ob_dict p ''age'' = Some age \<and> as_int age = Some a \<and> 0 \<le> a \<and>
         ob_dict p ''is_adult'' = Some (BoolV (18 \<le> a)))"
    using PersonPostInit_init_Inr by blast
  moreover note PersonPostInit_init_bound [OF b i]
  ultimately show ?thesis by simp
qed

lemma show_int_minus_5: "show_int (- 5) = ''-5''"
  by code_simp

theorem post_init_hook_witness:
  "(\<exists>msg. PersonPostInit_init [StrV ''Alice'', IntV 25, StrV ''test'']
            [(''is_adult'', BoolV False)] = Inl (TypeError msg)) \<and>
   PersonPostInit_init [StrV ''Alice'', IntV 25, StrV ''test''] [] =
     Inr \<lparr>ob_type = ''PersonPostInit'',
          ob_dict = [''name'' \<mapsto> StrV ''Alice'', ''age'' \<mapsto> IntV 25, ''email'' \<mapsto> StrV ''test'',
                     ''is_adult'' \<mapsto> BoolV True]\<rparr> \<and>
   (\<exists>age a.
      ob_dict \<lparr>ob_type = ''PersonPostInit'',
               ob_dict = [''name'' \<mapsto> StrV ''Alice'', ''age'' \<mapsto> IntV 25,
                          ''email'' \<mapsto> StrV ''test'', ''is_adult'' \<mapsto> BoolV True]\<rparr>
        ''age'' = Some age \<and>
      as_int age = Some a \<and> 0 \<le> a \<and>
      ob_dict \<lparr>ob_type = ''PersonPostInit'',
               ob_dict = [''name'' \<mapsto> StrV ''Alice'', ''age'' \<mapsto> IntV 25,
                          ''email'' \<mapsto> StrV ''test'', ''is_adult'' \<mapsto> BoolV True]\<rparr>
        ''is_adult'' = Some (BoolV (18 \<le> a))) \<and>
   PersonPostInit_init [StrV ''Alice'', IntV (- 5), StrV ''test''] [] =
     Inl (ValueError ''Age -5 is not valid'')"
proof -
  let ?args = "[StrV ''Alice'', IntV 25, StrV ''test'']"
  let ?p = "\<lparr>ob_type = ''PersonPostInit'',
             ob_dict = [''name'' \<mapsto> StrV ''Alice'', ''age'' \<mapsto> IntV 25,
                        ''email'' \<mapsto> StrV ''test'', ''is_adult'' \<mapsto> BoolV True]\<rparr>"
  have k: "''is_adult'' \<in> fst ` set [(''is_adult'', BoolV False)]" by simp
  have "\<exists>msg. PersonPostInit_init ?args [(''is_adult'', BoolV False)] = Inl (TypeError msg)"
    using k post_init_hook [of "[(''is_adult'', BoolV False)]" ?args ?p 25]
    by blast
  moreover have ok: "PersonPostInit_init ?args [] = Inr ?p"
    using post_init_hook [of "[]" ?args ?p 25 "StrV ''Alice''" "StrV ''test''"]
    by simp
  moreover have "\<exists>age a. ob_dict ?p ''age'' = Some age \<and> as_int age = Some a \<and> 0 \<le> a \<and>
      ob_dict ?p ''is_adult'' = Some (BoolV (18 \<le> a))"
    using ok post_init_hook [of "[]" ?args ?p 25 "StrV ''Alice''" "StrV ''test''"]
    by blast
  moreover have "PersonPostInit_init [StrV ''Alice'', IntV (- 5), StrV ''test''] [] =
     Inl (ValueError ''Age -5 is not valid'')"
    using ok post_init_hook [of "[]" ?args ?p "- 5" "StrV ''Alice''" "StrV ''test''"]
    by (simp add: show_int_minus_5)
  ultimately show ?thesis by blast
qed

section \<open>Properties: descriptors\<close>

lemma show_int_0: "show_int 0 = ''0''"
  by code_simp

lemma show_int_100: "show_int 100 = ''100''"
  by code_simp

lemma MyClass_descriptor_fields:
  assumes "MyClass_descriptor attr = Some d"
  shows "name_d d = Some attr" and "min_d d = IntV 0" and "max_d d = IntV 100"
    and "default_value d = IntV 0"
  using assms
  by (auto simp: MyClass_descriptor_def MyClass_value1_def MyClass_value2_def
      ValidationDescriptor_init_def ValidationDescriptor_set_name_def split: if_splits)

lemma MyClass_descriptor_managed:
  "attr = ''value1'' \<or> attr = ''value2'' \<Longrightarrow> \<exists>d. MyClass_descriptor attr = Some d"
  by (auto simp: MyClass_descriptor_def)

lemma ValidationDescriptor_set_raises:
  "fst (ValidationDescriptor_set d obj v) = Some e \<Longrightarrow>
   ValidationDescriptor_set d obj v = (Some e, obj)"
  by (auto simp: ValidationDescriptor_set_def split: sum.splits bool.splits option.splits)







lemma show_int_101: "show_int 101 = ''101''"
  by code_simp



text \<open>
  The notebook's cell: \<^verbatim>\<open>obj = MyClass(40, 65)\<close> stores both values; the misspelt
  \<^verbatim>\<open>obj.int_value1 = 50\<close> names no descriptor, so it goes into \<^verbatim>\<open>__dict__\<close> unchecked
  and \<^verbatim>\<open>obj.value1\<close> still reads 40.
\<close>

lemma MyClass_cell:
  "MyClass_init (IntV 40) (IntV 65) =
     Inr \<lparr>ob_type = ''MyClass'', ob_dict = [''value1'' \<mapsto> IntV 40, ''value2'' \<mapsto> IntV 65]\<rparr>"
  "MyClass_setattr
     \<lparr>ob_type = ''MyClass'', ob_dict = [''value1'' \<mapsto> IntV 40, ''value2'' \<mapsto> IntV 65]\<rparr>
     ''int_value1'' (IntV 50) =
     (None, \<lparr>ob_type = ''MyClass'',
             ob_dict = [''value1'' \<mapsto> IntV 40, ''value2'' \<mapsto> IntV 65,
                        ''int_value1'' \<mapsto> IntV 50]\<rparr>)"
  "MyClass_getattr
     \<lparr>ob_type = ''MyClass'',
      ob_dict = [''value1'' \<mapsto> IntV 40, ''value2'' \<mapsto> IntV 65, ''int_value1'' \<mapsto> IntV 50]\<rparr>
     ''value1'' = Inr (IntV 40)"
  "MyClass_getattr
     \<lparr>ob_type = ''MyClass'',
      ob_dict = [''value1'' \<mapsto> IntV 40, ''value2'' \<mapsto> IntV 65, ''int_value1'' \<mapsto> IntV 50]\<rparr>
     ''value2'' = Inr (IntV 65)"
  by (simp_all add: MyClass_init_def MyClass_setattr_def MyClass_getattr_def
      MyClass_descriptor_def MyClass_value1_def MyClass_value2_def
      ValidationDescriptor_init_def ValidationDescriptor_set_name_def
      ValidationDescriptor_set_def ValidationDescriptor_get_def in_range_def py_compare_def
      object_setattr_def)

lemma ValidationDescriptor_get_unset:
  "name_d d = Some name \<Longrightarrow> ob_dict obj name = None \<Longrightarrow>
   ValidationDescriptor_get d obj = Inr (default_value d)"
  by (simp add: ValidationDescriptor_get_def)

lemma ValidationDescriptor_get_stored:
  "name_d d = Some name \<Longrightarrow> ob_dict obj name = Some w \<Longrightarrow>
   ValidationDescriptor_get d obj = Inr w"
  by (simp add: ValidationDescriptor_get_def)

text \<open>
  C9. \<^verbatim>\<open>__set__\<close> fails atomically and \<^verbatim>\<open>__get__\<close> has a default. For any descriptor,
  object and value: when \<^verbatim>\<open>__set__\<close> raises, the object is unchanged, so \<^verbatim>\<open>__get__\<close> still
  returns the value stored before; on an object whose \<^verbatim>\<open>__dict__\<close> has no entry for the
  descriptor's name, \<^verbatim>\<open>__get__\<close> returns the descriptor's \<^verbatim>\<open>default_value\<close>, which
  \<^verbatim>\<open>__init__\<close> sets to 0. The same holds through attribute access on \<^verbatim>\<open>MyClass\<close>
  objects for \<^verbatim>\<open>value1\<close> and \<^verbatim>\<open>value2\<close>.
\<close>

theorem descriptor_set_fails_atomically:
  "(fst (ValidationDescriptor_set d obj v) = Some e \<longrightarrow>
      snd (ValidationDescriptor_set d obj v) = obj) \<and>
   (fst (ValidationDescriptor_set d obj v) = Some e \<and>
    name_d d = Some name \<and> ob_dict obj name = Some w \<longrightarrow>
      ValidationDescriptor_get d (snd (ValidationDescriptor_set d obj v)) = Inr w) \<and>
   (name_d d = Some name \<and> ob_dict obj name = None \<longrightarrow>
      ValidationDescriptor_get d obj = Inr (default_value d)) \<and>
   default_value (ValidationDescriptor_init min_arg max_arg) = IntV 0 \<and>
   ((attr = ''value1'' \<or> attr = ''value2'') \<and> ob_dict obj attr = None \<longrightarrow>
      MyClass_getattr obj attr = Inr (IntV 0)) \<and>
   ((attr = ''value1'' \<or> attr = ''value2'') \<and> ob_dict obj attr = Some w \<and>
    fst (MyClass_setattr obj attr v) = Some e \<longrightarrow>
      snd (MyClass_setattr obj attr v) = obj \<and>
      MyClass_getattr (snd (MyClass_setattr obj attr v)) attr = Inr w)"
proof (intro conjI impI)
  assume "fst (ValidationDescriptor_set d obj v) = Some e"
  then show "snd (ValidationDescriptor_set d obj v) = obj"
    by (simp add: ValidationDescriptor_set_raises)
next
  assume "fst (ValidationDescriptor_set d obj v) = Some e \<and>
    name_d d = Some name \<and> ob_dict obj name = Some w"
  then show "ValidationDescriptor_get d (snd (ValidationDescriptor_set d obj v)) = Inr w"
    by (simp add: ValidationDescriptor_set_raises ValidationDescriptor_get_stored)
next
  assume "name_d d = Some name \<and> ob_dict obj name = None"
  then show "ValidationDescriptor_get d obj = Inr (default_value d)"
    by (simp add: ValidationDescriptor_get_unset)
next
  show "default_value (ValidationDescriptor_init min_arg max_arg) = IntV 0"
    by (simp add: ValidationDescriptor_init_def)
next
  assume a: "(attr = ''value1'' \<or> attr = ''value2'') \<and> ob_dict obj attr = None"
  then obtain d' where d': "MyClass_descriptor attr = Some d'"
    using MyClass_descriptor_managed by blast
  from MyClass_descriptor_fields [OF d'] a show "MyClass_getattr obj attr = Inr (IntV 0)"
    by (simp add: MyClass_getattr_def d' ValidationDescriptor_get_def)
next
  assume a: "(attr = ''value1'' \<or> attr = ''value2'') \<and> ob_dict obj attr = Some w \<and>
    fst (MyClass_setattr obj attr v) = Some e"
  then obtain d' where d': "MyClass_descriptor attr = Some d'"
    using MyClass_descriptor_managed by blast
  from a have r: "ValidationDescriptor_set d' obj v = (Some e, obj)"
    by (simp add: MyClass_setattr_def d' ValidationDescriptor_set_raises)
  then show "snd (MyClass_setattr obj attr v) = obj"
    by (simp add: MyClass_setattr_def d')
  from MyClass_descriptor_fields(1) [OF d'] a r
  show "MyClass_getattr (snd (MyClass_setattr obj attr v)) attr = Inr w"
    by (simp add: MyClass_setattr_def MyClass_getattr_def d' ValidationDescriptor_get_def)
qed

theorem descriptor_set_fails_atomically_witness:
  "snd (ValidationDescriptor_set MyClass_value1
          \<lparr>ob_type = ''MyClass'', ob_dict = [''value1'' \<mapsto> IntV 40, ''value2'' \<mapsto> IntV 65]\<rparr>
          (IntV 101)) =
     \<lparr>ob_type = ''MyClass'', ob_dict = [''value1'' \<mapsto> IntV 40, ''value2'' \<mapsto> IntV 65]\<rparr> \<and>
   ValidationDescriptor_get MyClass_value1
     (snd (ValidationDescriptor_set MyClass_value1
          \<lparr>ob_type = ''MyClass'', ob_dict = [''value1'' \<mapsto> IntV 40, ''value2'' \<mapsto> IntV 65]\<rparr>
          (IntV 101))) = Inr (IntV 40) \<and>
   ValidationDescriptor_get MyClass_value2 \<lparr>ob_type = ''MyClass'', ob_dict = Map.empty\<rparr> =
     Inr (default_value MyClass_value2) \<and>
   snd (MyClass_setattr
          \<lparr>ob_type = ''MyClass'', ob_dict = [''value1'' \<mapsto> IntV 40, ''value2'' \<mapsto> IntV 65]\<rparr>
          ''value1'' (IntV 101)) =
     \<lparr>ob_type = ''MyClass'', ob_dict = [''value1'' \<mapsto> IntV 40, ''value2'' \<mapsto> IntV 65]\<rparr> \<and>
   MyClass_getattr
     (snd (MyClass_setattr
          \<lparr>ob_type = ''MyClass'', ob_dict = [''value1'' \<mapsto> IntV 40, ''value2'' \<mapsto> IntV 65]\<rparr>
          ''value1'' (IntV 101))) ''value1'' = Inr (IntV 40) \<and>
   MyClass_getattr \<lparr>ob_type = ''MyClass'', ob_dict = Map.empty\<rparr> ''value2'' = Inr (IntV 0)"
proof -
  let ?o = "\<lparr>ob_type = ''MyClass'', ob_dict = [''value1'' \<mapsto> IntV 40, ''value2'' \<mapsto> IntV 65]\<rparr>"
  let ?new = "\<lparr>ob_type = ''MyClass'', ob_dict = Map.empty\<rparr>"
  let ?e = "ValueError ''101 must be between 0 and 100''"
  have raised: "fst (ValidationDescriptor_set MyClass_value1 ?o (IntV 101)) = Some ?e"
    by (simp add: MyClass_value1_def ValidationDescriptor_init_def
        ValidationDescriptor_set_name_def ValidationDescriptor_set_def in_range_def
        py_compare_def show_int_0 show_int_100 show_int_101)
  then have raised': "fst (MyClass_setattr ?o ''value1'' (IntV 101)) = Some ?e"
    by (simp add: MyClass_setattr_def MyClass_descriptor_def)
  have names: "name_d MyClass_value1 = Some ''value1''" "name_d MyClass_value2 = Some ''value2''"
    by (simp_all add: MyClass_value1_def MyClass_value2_def ValidationDescriptor_set_name_def)
  have stored: "ob_dict ?o ''value1'' = Some (IntV 40)" by simp
  have unset: "ob_dict ?new ''value2'' = None" by simp
  note t1 = descriptor_set_fails_atomically
      [of MyClass_value1 ?o "IntV 101" ?e "''value1''" "IntV 40" None None "''value1''"]
  note t2 = descriptor_set_fails_atomically
      [of MyClass_value2 ?new "IntV 101" ?e "''value2''" "IntV 40" None None "''value2''"]
  have "snd (ValidationDescriptor_set MyClass_value1 ?o (IntV 101)) = ?o"
    using raised t1 by blast
  moreover have "ValidationDescriptor_get MyClass_value1
      (snd (ValidationDescriptor_set MyClass_value1 ?o (IntV 101))) = Inr (IntV 40)"
    using raised names(1) stored t1 by blast
  moreover have "ValidationDescriptor_get MyClass_value2 ?new = Inr (default_value MyClass_value2)"
    using names(2) unset t2 by blast
  moreover have "snd (MyClass_setattr ?o ''value1'' (IntV 101)) = ?o \<and>
        MyClass_getattr (snd (MyClass_setattr ?o ''value1'' (IntV 101))) ''value1'' = Inr (IntV 40)"
    using raised' stored t1 by blast
  moreover have "MyClass_getattr ?new ''value2'' = Inr (IntV 0)"
    using unset t2 by blast
  ultimately show ?thesis by blast
qed

end
